theory Spec2Isabelle
  imports Complex_Main
begin

section \<open>JavaScript values\<close>

text \<open>
  The report generator (\<^verbatim>\<open>src/tools/browserstack-report/generate-browserstack-report.ts\<close>)
  works on untyped JSON: every row is a \<^verbatim>\<open>Record<string, unknown>\<close>. A value is
  modelled by \<open>jsval\<close>. Numbers of a row are integers here (counts, durations and
  identifiers); an object is the list of its own properties in insertion order, with
  unique keys. Properties inherited from a prototype and the numeric-key reordering of
  JavaScript objects are outside the model.
\<close>

datatype jsval =
    JUndefined
  | JNull
  | JBool bool
  | JNum int
  | JStr string
  | JArr "jsval list"
  | JObj "(string \<times> jsval) list"

type_synonym JsonObject = "(string \<times> jsval) list"

text \<open>Decimal digits of a natural number, as \<^verbatim>\<open>String(n)\<close> prints them.\<close>

fun show_nat :: "nat \<Rightarrow> string" where
  "show_nat n =
     (if n < 10 then [''0123456789'' ! n]
      else show_nat (n div 10) @ [''0123456789'' ! (n mod 10)])"

definition show_int :: "int \<Rightarrow> string" where
  "show_int i = (if i < 0 then CHR ''-'' # show_nat (nat (- i)) else show_nat (nat i))"

text \<open>\<^verbatim>\<open>values.join(delimiter)\<close> on strings.\<close>

fun join :: "string \<Rightarrow> string list \<Rightarrow> string" where
  "join sep [] = []"
| "join sep [x] = x"
| "join sep (x # y # ys) = x @ sep @ join sep (y # ys)"

text \<open>
  \<^verbatim>\<open>String(value)\<close>. An array prints its elements joined by commas, with
  \<^verbatim>\<open>null\<close> and \<^verbatim>\<open>undefined\<close> elements printed as the empty string.
\<close>

fun String :: "jsval \<Rightarrow> string" where
  "String JUndefined = ''undefined''"
| "String JNull = ''null''"
| "String (JBool b) = (if b then ''true'' else ''false'')"
| "String (JNum i) = show_int i"
| "String (JStr s) = s"
| "String (JArr xs) =
     join '','' (map (\<lambda>x. if x = JUndefined \<or> x = JNull then [] else String x) xs)"
| "String (JObj kvs) = ''[object Object]''"

text \<open>\<^verbatim>\<open>a ?? b\<close>: the right operand replaces \<^verbatim>\<open>null\<close> and \<^verbatim>\<open>undefined\<close> only.\<close>

definition nullish :: "jsval \<Rightarrow> bool" where
  "nullish v \<longleftrightarrow> v = JUndefined \<or> v = JNull"

definition coalesce :: "jsval \<Rightarrow> jsval \<Rightarrow> jsval" where
  "coalesce a b = (if nullish a then b else a)"

text \<open>Truthiness, as \<^verbatim>\<open>Boolean(value)\<close> and \<^verbatim>\<open>if (value)\<close> read it.\<close>

fun truthy :: "jsval \<Rightarrow> bool" where
  "truthy JUndefined = False"
| "truthy JNull = False"
| "truthy (JBool b) = b"
| "truthy (JNum i) = (i \<noteq> 0)"
| "truthy (JStr s) = (s \<noteq> [])"
| "truthy (JArr xs) = True"
| "truthy (JObj kvs) = True"

text \<open>
  Property read \<^verbatim>\<open>obj[key]\<close> on a value that is not \<^verbatim>\<open>null\<close> or
  \<^verbatim>\<open>undefined\<close>: own properties of an object; \<^verbatim>\<open>length\<close> and canonical
  indices of an array; \<^verbatim>\<open>undefined\<close> for every other read.
\<close>

fun lookup :: "JsonObject \<Rightarrow> string \<Rightarrow> jsval" where
  "lookup [] k = JUndefined"
| "lookup ((k', v) # kvs) k = (if k' = k then v else lookup kvs k)"

definition array_index :: "jsval list \<Rightarrow> string \<Rightarrow> jsval" where
  "array_index xs k =
     (if k = ''length'' then JNum (int (length xs))
      else case filter (\<lambda>i. show_nat i = k) [0..<length xs] of
             [] \<Rightarrow> JUndefined
           | i # _ \<Rightarrow> xs ! i)"

fun property :: "jsval \<Rightarrow> string \<Rightarrow> jsval" where
  "property (JObj kvs) k = lookup kvs k"
| "property (JArr xs) k = array_index xs k"
| "property v k = JUndefined"

text \<open>\<^verbatim>\<open>obj[key] = value\<close>: an existing key keeps its place, a new key goes last.\<close>

fun assign :: "JsonObject \<Rightarrow> string \<Rightarrow> jsval \<Rightarrow> JsonObject" where
  "assign [] k v = [(k, v)]"
| "assign ((k', v') # kvs) k v =
     (if k' = k then (k, v) # kvs else (k', v') # assign kvs k v)"

text \<open>\<^verbatim>\<open>key.split(".")\<close>: the pieces between dots; the empty string gives one empty piece.\<close>

fun split_dot :: "string \<Rightarrow> string list" where
  "split_dot [] = [[]]"
| "split_dot (c # cs) =
     (if c = CHR ''.'' then [] # split_dot cs
      else case split_dot cs of
             [] \<Rightarrow> [[c]]
           | p # ps \<Rightarrow> (c # p) # ps)"

text \<open>
  \<^verbatim>\<open>getNested(input, key)\<close> (lines 343-350): walk the dotted path, giving
  \<^verbatim>\<open>undefined\<close> as soon as the value at hand is not an object.
\<close>

definition is_object :: "jsval \<Rightarrow> bool" where
  "is_object v \<longleftrightarrow> (case v of JObj _ \<Rightarrow> True | JArr _ \<Rightarrow> True | _ \<Rightarrow> False)"

definition getNested :: "jsval \<Rightarrow> string \<Rightarrow> jsval" where
  "getNested input key =
     foldl (\<lambda>acc part. if nullish acc \<or> \<not> is_object acc then JUndefined else property acc part)
       input (split_dot key)"

section \<open>Strings, numbers and dates\<close>

text \<open>
  Strings are lists of 8-bit characters and are read as ASCII text: \<^verbatim>\<open>trim\<close> strips
  the ASCII white space characters and \<^verbatim>\<open>toLowerCase\<close> maps \<^verbatim>\<open>A-Z\<close> to
  \<^verbatim>\<open>a-z\<close>.
\<close>

abbreviation LF :: char where "LF \<equiv> CHR 0x0A"
abbreviation CR :: char where "CR \<equiv> CHR 0x0D"
abbreviation DQUOTE :: char where "DQUOTE \<equiv> CHR 0x22"
abbreviation COMMA :: char where "COMMA \<equiv> CHR '',''"

definition is_space :: "char \<Rightarrow> bool" where
  "is_space c \<longleftrightarrow> c \<in> set [CHR 0x09, CHR 0x0A, CHR 0x0B, CHR 0x0C, CHR 0x0D, CHR 0x20]"

definition trim :: "string \<Rightarrow> string" where
  "trim s = rev (dropWhile is_space (rev (dropWhile is_space s)))"

definition lower_char :: "char \<Rightarrow> char" where
  "lower_char c =
     (case map_of (zip ''ABCDEFGHIJKLMNOPQRSTUVWXYZ'' ''abcdefghijklmnopqrstuvwxyz'') c of
        Some l \<Rightarrow> l
      | None \<Rightarrow> c)"

definition toLowerCase :: "string \<Rightarrow> string" where
  "toLowerCase s = map lower_char s"

text \<open>\<^verbatim>\<open>text.includes(term)\<close>: the term occurs as a contiguous piece of the text.\<close>

fun starts_with :: "string \<Rightarrow> string \<Rightarrow> bool" where
  "starts_with s [] = True"
| "starts_with [] (p # ps) = False"
| "starts_with (c # cs) (p # ps) = (c = p \<and> starts_with cs ps)"

fun str_includes :: "string \<Rightarrow> string \<Rightarrow> bool" where
  "str_includes [] t = (t = [])"
| "str_includes (c # cs) t = (starts_with (c # cs) t \<or> str_includes cs t)"

text \<open>\<^verbatim>\<open>safeJoin(values, delimiter)\<close> (lines 335-341).\<close>

definition safeJoin :: "jsval list \<Rightarrow> string \<Rightarrow> string" where
  "safeJoin values delimiter =
     join delimiter
       (filter (\<lambda>v. length v > 0)
          (map (\<lambda>v. trim (String v))
             (filter (\<lambda>v. v \<noteq> JNull \<and> v \<noteq> JUndefined) values)))"

text \<open>
  A JavaScript \<^verbatim>\<open>number\<close> of the configuration: a finite value, or one of the three
  values that are not finite. Finite values are exact rationals: the rounding of
  double arithmetic is not modelled.
\<close>

datatype jsnumber = Finite rat | NaN | PosInfinity | NegInfinity

definition isFinite :: "jsnumber \<Rightarrow> bool" where
  "isFinite x \<longleftrightarrow> (case x of Finite _ \<Rightarrow> True | _ \<Rightarrow> False)"




text \<open>
  The optional day window \<^verbatim>\<open>days?: number | null\<close>.
\<close>

datatype days_setting = DaysUndefined | DaysNull | Days jsnumber

text \<open>
  The date library is a parameter: \<open>parseDate s\<close> is
  \<^verbatim>\<open>new Date(s).getTime()\<close>, with \<open>None\<close> for \<^verbatim>\<open>NaN\<close>, and \<open>isoString\<close> is
  \<^verbatim>\<open>toISOString\<close> on a valid time.
\<close>

type_synonym date_parser = "string \<Rightarrow> int option"

text \<open>\<^verbatim>\<open>toIsoOrEmpty(rawValue)\<close> (lines 352-357).\<close>

definition toIsoOrEmpty :: "date_parser \<Rightarrow> (int \<Rightarrow> string) \<Rightarrow> jsval \<Rightarrow> string" where
  "toIsoOrEmpty parseDate isoString rawValue =
     (if \<not> truthy rawValue then []
      else case parseDate (String rawValue) of
             None \<Rightarrow> []
           | Some t \<Rightarrow> isoString t)"

section \<open>The time window of the filter pipeline\<close>




section \<open>Delimited text\<close>

text \<open>\<^verbatim>\<open>csvEscape(value)\<close> (lines 1256-1262) and \<^verbatim>\<open>toCsv(rows)\<close> (lines 1264-1270).\<close>

definition needs_quoting :: "string \<Rightarrow> bool" where
  "needs_quoting text \<longleftrightarrow> list_ex (\<lambda>c. c = DQUOTE \<or> c = COMMA \<or> c = LF) text"

fun double_quotes :: "string \<Rightarrow> string" where
  "double_quotes [] = []"
| "double_quotes (c # cs) =
     (if c = DQUOTE then DQUOTE # DQUOTE # double_quotes cs else c # double_quotes cs)"

definition csvEscape :: "jsval \<Rightarrow> string" where
  "csvEscape v =
     (let text = String (coalesce v (JStr []))
      in if needs_quoting text then [DQUOTE] @ double_quotes text @ [DQUOTE] else text)"

definition toCsv :: "JsonObject list \<Rightarrow> string" where
  "toCsv rows =
     (case rows of
        [] \<Rightarrow> []
      | first # _ \<Rightarrow>
          let headers = map fst first;
              headerLine = join [COMMA] (map (\<lambda>h. csvEscape (JStr h)) headers);
              lines = map (\<lambda>row. join [COMMA] (map (\<lambda>k. csvEscape (lookup row k)) headers)) rows
          in join [LF] (headerLine # lines))"

text \<open>
  The reader of the round trip is not part of the repository. It is written here from
  RFC 4180: a field that opens with a double quote runs to the closing quote, a doubled
  quote inside it standing for one quote; any other field runs up to the next comma or
  line break. A line break starts with a line feed (what \<open>toCsv\<close> writes between
  records) or with a carriage return (the line break of RFC 4180 is a carriage return
  and a line feed). The reader returns the field and the text left after it.
\<close>

fun read_quoted :: "string \<Rightarrow> (string \<times> string) option" where
  "read_quoted [] = None"
| "read_quoted (c # cs) =
     (if c = DQUOTE then
        (case cs of
           [] \<Rightarrow> Some ([], [])
         | d # ds \<Rightarrow>
             if d = DQUOTE then map_option (\<lambda>(f, r). (DQUOTE # f, r)) (read_quoted ds)
             else Some ([], d # ds))
      else map_option (\<lambda>(f, r). (c # f, r)) (read_quoted cs))"

fun read_plain :: "string \<Rightarrow> string \<times> string" where
  "read_plain [] = ([], [])"
| "read_plain (c # cs) =
     (if c = COMMA \<or> c = LF \<or> c = CR then ([], c # cs)
      else (case read_plain cs of (f, r) \<Rightarrow> (c # f, r)))"

definition csv_read_field :: "string \<Rightarrow> (string \<times> string) option" where
  "csv_read_field s =
     (case s of
        [] \<Rightarrow> Some ([], [])
      | c # cs \<Rightarrow> if c = DQUOTE then read_quoted cs else Some (read_plain (c # cs)))"

text \<open>What may follow a field in the output of \<open>toCsv\<close>: nothing, a comma or a line feed.\<close>

definition field_end :: "string \<Rightarrow> bool" where
  "field_end rest \<longleftrightarrow> rest = [] \<or> starts_with rest [COMMA] \<or> starts_with rest [LF]"

definition has_carriage_return :: "string \<Rightarrow> bool" where
  "has_carriage_return text \<longleftrightarrow> list_ex (\<lambda>c. c = CR) text"

section \<open>Flattening the test hierarchy\<close>

text \<open>
  The \<^verbatim>\<open>Node\<close> type of \<^verbatim>\<open>flattenTestHierarchy\<close> (lines 435-440). An absent
  \<^verbatim>\<open>display_name\<close>, \<^verbatim>\<open>type\<close> or \<^verbatim>\<open>details\<close> is \<open>None\<close>; an absent
  \<^verbatim>\<open>children\<close>, or one that is not an array, is the empty list.
\<close>

datatype Node =
  Node (display_name: "string option") (node_type: "string option")
       (node_details: "JsonObject option") (children: "Node list")

definition type_of :: "Node \<Rightarrow> string" where
  "type_of n = (case node_type n of Some t \<Rightarrow> t | None \<Rightarrow> [])"

definition name_of :: "Node \<Rightarrow> string" where
  "name_of n = (case display_name n of Some d \<Rightarrow> d | None \<Rightarrow> [])"

definition details_of :: "Node \<Rightarrow> JsonObject" where
  "details_of n = (case node_details n of Some d \<Rightarrow> d | None \<Rightarrow> [])"

text \<open>\<^verbatim>\<open>Array.isArray(v) ? v : []\<close> and \<^verbatim>\<open>xs[0] ?? d\<close>.\<close>

definition array_or_empty :: "jsval \<Rightarrow> jsval list" where
  "array_or_empty v = (case v of JArr xs \<Rightarrow> xs | _ \<Rightarrow> [])"

definition first_or :: "jsval list \<Rightarrow> jsval \<Rightarrow> jsval" where
  "first_or xs d = (case xs of [] \<Rightarrow> d | x # _ \<Rightarrow> coalesce x d)"

text \<open>The row pushed at lines 463-492.\<close>

definition testRow ::
  "string \<Rightarrow> string \<Rightarrow> jsval \<Rightarrow> JsonObject \<Rightarrow> string \<Rightarrow> string list \<Rightarrow>
   string \<Rightarrow> JsonObject \<Rightarrow> string \<Rightarrow> JsonObject" where
  "testRow buildId buildName buildNumber rootDetails rootDisplayName parentPath
     type details displayName =
     (let retries = array_or_empty (lookup details ''retries'');
          firstRetry = first_or retries (JObj []);
          logs = coalesce (property firstRetry ''logs'') (JObj []);
          failureLogs = array_or_empty (property logs ''TEST_FAILURE'')
      in [(''source_build_id'', JStr buildId),
          (''source_build_name'', JStr buildName),
          (''source_build_number'', buildNumber),
          (''root_scope'', JStr rootDisplayName),
          (''scope_path'', JStr (join '' > '' parentPath)),
          (''test_type'', JStr type),
          (''test_name'', JStr displayName),
          (''test_status'', coalesce (lookup details ''status'') (JStr [])),
          (''test_duration_ms'', coalesce (lookup details ''duration'') (JStr [])),
          (''test_tags'', JStr (safeJoin (array_or_empty (lookup details ''tags'')) '', '')),
          (''retries_count'', JNum (int (length retries))),
          (''run_count'', coalesce (lookup details ''run_count'') (JStr [])),
          (''is_flaky'', coalesce (lookup details ''is_flaky'') (JStr [])),
          (''is_always_failing'', coalesce (lookup details ''is_always_failing'') (JStr [])),
          (''is_new_failure'', coalesce (lookup details ''is_new_failure'') (JStr [])),
          (''is_performance_anomaly'',
             coalesce (lookup details ''is_performance_anomaly'') (JStr [])),
          (''is_muted'', coalesce (lookup details ''is_muted'') (JStr [])),
          (''observability_url'', coalesce (lookup details ''observability_url'') (JStr [])),
          (''first_failure_log'', first_or failureLogs (JStr [])),
          (''root_file_path'', coalesce (lookup rootDetails ''file_path'') (JStr [])),
          (''root_os_name'', coalesce (getNested (lookup rootDetails ''os'') ''name'') (JStr [])),
          (''root_os_version'',
             coalesce (getNested (lookup rootDetails ''os'') ''version'') (JStr [])),
          (''root_browser_name'',
             coalesce (getNested (lookup rootDetails ''browser'') ''name'') (JStr [])),
          (''root_browser_version'',
             coalesce (getNested (lookup rootDetails ''browser'') ''version'') (JStr [])),
          (''root_device'', coalesce (lookup rootDetails ''device'') (JStr [])),
          (''finished_at'', coalesce (lookup rootDetails ''finished_at'') (JStr []))])"

text \<open>
  \<^verbatim>\<open>walk\<close> (lines 442-497) pushes onto the shared \<^verbatim>\<open>rows\<close> array: the node's own
  row first, then the rows of its children in order. The model returns the rows pushed.
\<close>

definition qualifies :: "bool \<Rightarrow> Node \<Rightarrow> bool" where
  "qualifies includeHooks n \<longleftrightarrow>
     (type_of n = ''TEST'' \<or> (includeHooks \<and> type_of n = ''HOOK'')) \<and> name_of n \<noteq> []"

definition nextPath :: "string list \<Rightarrow> Node \<Rightarrow> string list" where
  "nextPath parentPath n = (if name_of n \<noteq> [] then parentPath @ [name_of n] else parentPath)"

fun walk ::
  "bool \<Rightarrow> string \<Rightarrow> string \<Rightarrow> jsval \<Rightarrow> JsonObject \<Rightarrow> string \<Rightarrow> string list \<Rightarrow> Node \<Rightarrow>
   JsonObject list" where
  "walk includeHooks buildId buildName buildNumber rootDetails rootDisplayName parentPath
     (Node dn ty det ch) =
     (if qualifies includeHooks (Node dn ty det ch)
      then [testRow buildId buildName buildNumber rootDetails rootDisplayName parentPath
              (type_of (Node dn ty det ch)) (details_of (Node dn ty det ch))
              (name_of (Node dn ty det ch))]
      else [])
     @ concat (map (walk includeHooks buildId buildName buildNumber rootDetails rootDisplayName
                      (nextPath parentPath (Node dn ty det ch))) ch)"

text \<open>\<^verbatim>\<open>flattenTestHierarchy\<close> (lines 426-506).\<close>

definition flattenTestHierarchy ::
  "string \<Rightarrow> string \<Rightarrow> jsval \<Rightarrow> Node list \<Rightarrow> bool \<Rightarrow> JsonObject list" where
  "flattenTestHierarchy buildId buildName buildNumber hierarchy includeHooks =
     concat (map (\<lambda>rootNode.
                    walk includeHooks buildId buildName buildNumber
                      (details_of rootNode) (name_of rootNode) [] rootNode)
               hierarchy)"










section \<open>Column projection\<close>

text \<open>\<^verbatim>\<open>ColumnConfig\<close> (lines 8-12); an absent field is \<open>None\<close>.\<close>

record ColumnConfig =
  key :: string
  header :: "string option"
  default_value :: "jsval option"

text \<open>\<^verbatim>\<open>pickColumns\<close> (lines 1210-1227).\<close>

definition pickRow :: "ColumnConfig list \<Rightarrow> JsonObject \<Rightarrow> JsonObject" where
  "pickRow columns row =
     foldl (\<lambda>nextRow column.
              let hdr = (case header column of Some h \<Rightarrow> h | None \<Rightarrow> key column);
                  v = getNested (JObj row) (key column)
              in assign nextRow hdr
                   (if v \<noteq> JUndefined \<and> v \<noteq> JNull then v
                    else coalesce (case default_value column of Some d \<Rightarrow> d | None \<Rightarrow> JUndefined)
                           (JStr [])))
       [] columns"

definition pickColumns :: "JsonObject list \<Rightarrow> ColumnConfig list option \<Rightarrow> JsonObject list" where
  "pickColumns rows columns =
     (case columns of
        None \<Rightarrow> rows
      | Some cols \<Rightarrow> if length cols = 0 then rows else map (pickRow cols) rows)"

section \<open>The configuration\<close>

text \<open>
  \<^verbatim>\<open>ReportConfig\<close> (lines 14-63). A field the type marks optional has an option
  type, \<open>None\<close> standing for an absent value. Counts and limits are integers. A field
  whose source name is a common word carries the name of its section in front.
\<close>

datatype error = Error string

datatype format = Csv | Xlsx | Md | Json

record Credentials =
  usernameEnv :: string
  accessKeyEnv :: string

record DiscoverRecentBuilds =
  discover_enabled :: "bool option"
  maxBuildsPerSource :: "int option"
  testReportingProjectIds :: "int list option"

record Inputs =
  testReportingBuildIds :: "string list"
  appAutomateBuildIds :: "string list"
  appCustomIds :: "string list option"
  discoverRecentBuilds :: "DiscoverRecentBuilds option"

record TestReporting =
  testReporting_enabled :: bool
  fetchAllPages :: bool
  includeHooks :: bool
  testRunQuery :: "(string \<times> string) list option"

record AppAutomate =
  appAutomate_enabled :: bool
  sessionLimit :: int
  includeSessionDetails :: bool
  sessionStatusFilter :: "string option"
  appListLimit :: int

record Outputs =
  outputs_directory :: string
  baseName :: string
  outputs_formats :: "format list"
  markdownMaxRows :: int

record Filters =
  filters_days :: days_setting
  filters_projects :: "string list option"
  filters_teams :: "string list option"
  filters_people :: "string list option"
  caseSensitive :: "bool option"
  applyDaysToApps :: "bool option"

record Columns =
  columns_builds :: "ColumnConfig list option"
  columns_tests :: "ColumnConfig list option"
  columns_sessions :: "ColumnConfig list option"
  columns_apps :: "ColumnConfig list option"
  columns_overview :: "ColumnConfig list option"

record ReportConfig =
  credentials :: Credentials
  inputs :: Inputs
  testReporting :: TestReporting
  appAutomate :: AppAutomate
  outputs :: Outputs
  filters :: "Filters option"
  columns :: "Columns option"

text \<open>
  The argument of \<^verbatim>\<open>resolveConfig\<close> is a parsed JSON document read as
  \<^verbatim>\<open>Partial<ReportConfig>\<close>: any section and any field of a section may be missing.
  \<open>DiscoverRecentBuilds\<close>, \<open>Filters\<close> and \<open>Columns\<close> have optional fields only and
  serve for both.
\<close>

record RawCredentials =
  raw_usernameEnv :: "string option"
  raw_accessKeyEnv :: "string option"

record RawInputs =
  raw_testReportingBuildIds :: "string list option"
  raw_appAutomateBuildIds :: "string list option"
  raw_appCustomIds :: "string list option"
  raw_discoverRecentBuilds :: "DiscoverRecentBuilds option"

record RawTestReporting =
  raw_testReporting_enabled :: "bool option"
  raw_fetchAllPages :: "bool option"
  raw_includeHooks :: "bool option"
  raw_testRunQuery :: "(string \<times> string) list option"

record RawAppAutomate =
  raw_appAutomate_enabled :: "bool option"
  raw_sessionLimit :: "int option"
  raw_includeSessionDetails :: "bool option"
  raw_sessionStatusFilter :: "string option"
  raw_appListLimit :: "int option"

record RawOutputs =
  raw_outputs_directory :: "string option"
  raw_baseName :: "string option"
  raw_outputs_formats :: "format list option"
  raw_markdownMaxRows :: "int option"

record RawConfig =
  raw_credentials :: "RawCredentials option"
  raw_inputs :: "RawInputs option"
  raw_testReporting :: "RawTestReporting option"
  raw_appAutomate :: "RawAppAutomate option"
  raw_outputs :: "RawOutputs option"
  raw_filters :: "Filters option"
  raw_columns :: "Columns option"

text \<open>\<^verbatim>\<open>section?.field ?? fallback\<close>.\<close>

definition field_or :: "'s option \<Rightarrow> ('s \<Rightarrow> 'a option) \<Rightarrow> 'a \<Rightarrow> 'a" where
  "field_or section field fallback =
     (case section of
        None \<Rightarrow> fallback
      | Some sec \<Rightarrow> (case field sec of None \<Rightarrow> fallback | Some v \<Rightarrow> v))"

text \<open>\<^verbatim>\<open>section?.field\<close>.\<close>

definition field_of :: "'s option \<Rightarrow> ('s \<Rightarrow> 'a option) \<Rightarrow> 'a option" where
  "field_of section field = (case section of None \<Rightarrow> None | Some sec \<Rightarrow> field sec)"

text \<open>\<^verbatim>\<open>raw.filters?.days ?? null\<close>.\<close>

definition days_or_null :: "Filters option \<Rightarrow> days_setting" where
  "days_or_null section =
     (case section of
        None \<Rightarrow> DaysNull
      | Some f \<Rightarrow> (case filters_days f of DaysUndefined \<Rightarrow> DaysNull | d \<Rightarrow> d))"

text \<open>\<^verbatim>\<open>resolveConfig\<close> (lines 181-234).\<close>

definition resolveConfig :: "RawConfig \<Rightarrow> ReportConfig" where
  "resolveConfig raw =
     \<lparr> credentials =
         \<lparr> usernameEnv = field_or (raw_credentials raw) raw_usernameEnv ''BROWSERSTACK_USERNAME'',
           accessKeyEnv =
             field_or (raw_credentials raw) raw_accessKeyEnv ''BROWSERSTACK_ACCESS_KEY'' \<rparr>,
       inputs =
         \<lparr> testReportingBuildIds = field_or (raw_inputs raw) raw_testReportingBuildIds [],
           appAutomateBuildIds = field_or (raw_inputs raw) raw_appAutomateBuildIds [],
           appCustomIds = Some (field_or (raw_inputs raw) raw_appCustomIds []),
           discoverRecentBuilds = Some
             \<lparr> discover_enabled = Some
                 (field_or (field_of (raw_inputs raw) raw_discoverRecentBuilds)
                    discover_enabled True),
               maxBuildsPerSource = Some
                 (field_or (field_of (raw_inputs raw) raw_discoverRecentBuilds)
                    maxBuildsPerSource 20),
               testReportingProjectIds = Some
                 (field_or (field_of (raw_inputs raw) raw_discoverRecentBuilds)
                    testReportingProjectIds []) \<rparr> \<rparr>,
       testReporting =
         \<lparr> testReporting_enabled =
             field_or (raw_testReporting raw) raw_testReporting_enabled True,
           fetchAllPages = field_or (raw_testReporting raw) raw_fetchAllPages True,
           includeHooks = field_or (raw_testReporting raw) raw_includeHooks False,
           testRunQuery = Some (field_or (raw_testReporting raw) raw_testRunQuery []) \<rparr>,
       appAutomate =
         \<lparr> appAutomate_enabled = field_or (raw_appAutomate raw) raw_appAutomate_enabled True,
           sessionLimit = field_or (raw_appAutomate raw) raw_sessionLimit 25,
           includeSessionDetails =
             field_or (raw_appAutomate raw) raw_includeSessionDetails True,
           sessionStatusFilter =
             Some (field_or (raw_appAutomate raw) raw_sessionStatusFilter []),
           appListLimit = field_or (raw_appAutomate raw) raw_appListLimit 10 \<rparr>,
       outputs =
         \<lparr> outputs_directory =
             field_or (raw_outputs raw) raw_outputs_directory ''reports/browserstack-report'',
           baseName = field_or (raw_outputs raw) raw_baseName ''browserstack-report'',
           outputs_formats = field_or (raw_outputs raw) raw_outputs_formats [Csv, Xlsx, Md, Json],
           markdownMaxRows = field_or (raw_outputs raw) raw_markdownMaxRows 0 \<rparr>,
       filters = Some
         \<lparr> filters_days = days_or_null (raw_filters raw),
           filters_projects = Some (field_or (raw_filters raw) filters_projects []),
           filters_teams = Some (field_or (raw_filters raw) filters_teams []),
           filters_people = Some (field_or (raw_filters raw) filters_people []),
           caseSensitive = Some (field_or (raw_filters raw) caseSensitive False),
           applyDaysToApps = Some (field_or (raw_filters raw) applyDaysToApps False) \<rparr>,
       columns = Some
         \<lparr> columns_builds = field_of (raw_columns raw) columns_builds,
           columns_tests = field_of (raw_columns raw) columns_tests,
           columns_sessions = field_of (raw_columns raw) columns_sessions,
           columns_apps = field_of (raw_columns raw) columns_apps,
           columns_overview = field_of (raw_columns raw) columns_overview \<rparr> \<rparr>"

text \<open>
  A \<^verbatim>\<open>ReportConfig\<close> read as a \<^verbatim>\<open>Partial<ReportConfig>\<close>, which is how a resolved
  configuration is passed to \<open>resolveConfig\<close> again.
\<close>

definition as_partial :: "ReportConfig \<Rightarrow> RawConfig" where
  "as_partial c =
     \<lparr> raw_credentials = Some
         \<lparr> raw_usernameEnv = Some (usernameEnv (credentials c)),
           raw_accessKeyEnv = Some (accessKeyEnv (credentials c)) \<rparr>,
       raw_inputs = Some
         \<lparr> raw_testReportingBuildIds = Some (testReportingBuildIds (inputs c)),
           raw_appAutomateBuildIds = Some (appAutomateBuildIds (inputs c)),
           raw_appCustomIds = appCustomIds (inputs c),
           raw_discoverRecentBuilds = discoverRecentBuilds (inputs c) \<rparr>,
       raw_testReporting = Some
         \<lparr> raw_testReporting_enabled = Some (testReporting_enabled (testReporting c)),
           raw_fetchAllPages = Some (fetchAllPages (testReporting c)),
           raw_includeHooks = Some (includeHooks (testReporting c)),
           raw_testRunQuery = testRunQuery (testReporting c) \<rparr>,
       raw_appAutomate = Some
         \<lparr> raw_appAutomate_enabled = Some (appAutomate_enabled (appAutomate c)),
           raw_sessionLimit = Some (sessionLimit (appAutomate c)),
           raw_includeSessionDetails = Some (includeSessionDetails (appAutomate c)),
           raw_sessionStatusFilter = sessionStatusFilter (appAutomate c),
           raw_appListLimit = Some (appListLimit (appAutomate c)) \<rparr>,
       raw_outputs = Some
         \<lparr> raw_outputs_directory = Some (outputs_directory (outputs c)),
           raw_baseName = Some (baseName (outputs c)),
           raw_outputs_formats = Some (outputs_formats (outputs c)),
           raw_markdownMaxRows = Some (markdownMaxRows (outputs c)) \<rparr>,
       raw_filters = filters c,
       raw_columns = columns c \<rparr>"

text \<open>The empty document \<^verbatim>\<open>{}\<close>.\<close>

definition empty_document :: RawConfig where
  "empty_document =
     \<lparr> raw_credentials = None, raw_inputs = None, raw_testReporting = None,
       raw_appAutomate = None, raw_outputs = None, raw_filters = None, raw_columns = None \<rparr>"

text \<open>\<^verbatim>\<open>isPlaceholderValue\<close> (lines 236-244).\<close>

definition isPlaceholderValue :: "string \<Rightarrow> bool" where
  "isPlaceholderValue v =
     (let normalized = toLowerCase (trim v)
      in length normalized = 0 \<or> str_includes normalized ''replace-with''
         \<or> str_includes normalized ''optional-'' \<or> str_includes normalized ''your-'')"

text \<open>
  \<^verbatim>\<open>validateConfig\<close> (lines 246-295). \<open>id_errors\<close> is the \<^verbatim>\<open>errors\<close> array when line
  278 is reached; a thrown \<^verbatim>\<open>Error\<close> is the left summand.
\<close>

definition canDiscover :: "ReportConfig \<Rightarrow> bool" where
  "canDiscover config = (field_of (discoverRecentBuilds (inputs config)) discover_enabled = Some True)"

definition id_errors :: "ReportConfig \<Rightarrow> string list" where
  "id_errors config =
     (if testReporting_enabled (testReporting config) then
        (if length (testReportingBuildIds (inputs config)) = 0 \<and> \<not> canDiscover config
         then [''testReporting.enabled is true but inputs.testReportingBuildIds is empty.'']
         else [])
        @ (let invalid = filter isPlaceholderValue (testReportingBuildIds (inputs config))
           in if length invalid > 0
              then [''testReportingBuildIds contains placeholder values: '' @ join '', '' invalid]
              else [])
      else [])
     @ (if appAutomate_enabled (appAutomate config) then
          (if length (appAutomateBuildIds (inputs config)) = 0 \<and> \<not> canDiscover config
           then [''appAutomate.enabled is true but inputs.appAutomateBuildIds is empty.'']
           else [])
          @ (let invalid = filter isPlaceholderValue (appAutomateBuildIds (inputs config))
             in if length invalid > 0
                then [''appAutomateBuildIds contains placeholder values: '' @ join '', '' invalid]
                else [])
        else [])"

definition le_zero :: "jsnumber \<Rightarrow> bool" where
  "le_zero x = (case x of Finite q \<Rightarrow> q \<le> 0 | NegInfinity \<Rightarrow> True | _ \<Rightarrow> False)"

definition days_invalid :: "ReportConfig \<Rightarrow> bool" where
  "days_invalid config =
     (case field_of (filters config) (\<lambda>f. Some (filters_days f)) of
        Some (Days d) \<Rightarrow> (if \<not> isFinite d then True else le_zero d)
      | _ \<Rightarrow> False)"

definition validateConfig :: "ReportConfig \<Rightarrow> error + unit" where
  "validateConfig config =
     (if length (id_errors config) > 0 then
        Inl (Error (join [LF]
          ([''Invalid report configuration.''] @ id_errors config @
           [''Tip: provide real BrowserStack build IDs, or disable the corresponding section (testReporting.enabled/appAutomate.enabled).''])))
      else if days_invalid config then
        Inl (Error ''Invalid filters.days. Use a positive number or null.'')
      else Inr ())"

section \<open>The remote services\<close>

text \<open>
  \<^verbatim>\<open>fetchJson\<close> (lines 321-333) performs an authenticated GET and either returns the
  parsed payload or throws. The remote side is a parameter of the model: one function
  per endpoint, from what the request carries to the payload or the error. The date
  library is part of the same record.
\<close>

text \<open>The query of the session listing (lines 683-689).\<close>

record SessionsQuery =
  query_limit :: int
  query_offset :: int
  query_status :: "string option"

text \<open>
  The query of a project's build listing (lines 1084-1088). The date range is kept as
  the pair of its two numbers; an empty \<^verbatim>\<open>next_page\<close> is dropped from the URL by
  \<^verbatim>\<open>toQueryString\<close>.
\<close>

record BuildsQuery =
  query_date_range :: "jsnumber \<times> int"
  query_max_builds :: int
  query_next_page :: string

text \<open>\<^verbatim>\<open>TestRunsResponse\<close> (lines 508-517).\<close>

record Pagination =
  has_next :: "bool option"
  next_page :: "string option"

record TestRunsResponse =
  response_build_name :: "string option"
  response_build_number :: "int option"
  response_hierarchy :: "Node list"
  response_pagination :: "Pagination option"

record Remote =
  parse_date :: date_parser
  iso_string :: "int \<Rightarrow> string"
  list_sessions :: "string \<Rightarrow> SessionsQuery \<Rightarrow> error + JsonObject list"
  session_details :: "string \<Rightarrow> error + JsonObject"
  list_projects :: "string \<Rightarrow> error + jsval"
  list_builds :: "int \<Rightarrow> BuildsQuery \<Rightarrow> error + jsval"
  test_runs :: "string \<Rightarrow> (string \<times> string) list \<Rightarrow> error + TestRunsResponse"

text \<open>
  How a run of a loop ends: the loop returned, a request threw, or the model's step
  budget ran out before either.
\<close>

datatype 'a outcome = OutOfFuel | Threw error | Returned 'a

section \<open>Listing the sessions of a build\<close>

text \<open>\<^verbatim>\<open>a || b\<close> on strings.\<close>

definition or_string :: "string \<Rightarrow> string \<Rightarrow> string" where
  "or_string a b = (if a \<noteq> [] then a else b)"

text \<open>The \<^verbatim>\<open>baseRow\<close> of lines 695-717.\<close>

definition sessionBaseRow :: "Remote \<Rightarrow> string \<Rightarrow> JsonObject \<Rightarrow> JsonObject" where
  "sessionBaseRow remote buildId item =
     (let session = coalesce (lookup item ''automation_session'') (JObj []);
          sessionId = coalesce (property session ''hashed_id'') (JStr []);
          iso = toIsoOrEmpty (parse_date remote) (iso_string remote)
      in [(''source'', JStr ''app-automate''),
          (''build_id'', JStr buildId),
          (''session_id'', sessionId),
          (''session_name'', coalesce (property session ''name'') (JStr [])),
          (''session_created_at'', JStr (iso (property session ''created_at''))),
          (''session_started_at'', JStr (iso (property session ''started_at''))),
          (''session_finished_at'', JStr (iso (property session ''finished_at''))),
          (''session_status'', coalesce (property session ''status'') (JStr [])),
          (''session_duration_sec'', coalesce (property session ''duration'') (JStr [])),
          (''os'', coalesce (property session ''os'') (JStr [])),
          (''os_version'', coalesce (property session ''os_version'') (JStr [])),
          (''device'', coalesce (property session ''device'') (JStr [])),
          (''reason'', coalesce (property session ''reason'') (JStr [])),
          (''build_name'', coalesce (property session ''build_name'') (JStr [])),
          (''project_name'', coalesce (property session ''project_name'') (JStr [])),
          (''logs_url'', coalesce (property session ''logs'') (JStr [])),
          (''appium_logs_url'', coalesce (property session ''appium_logs_url'') (JStr [])),
          (''video_url'', coalesce (property session ''video_url'') (JStr [])),
          (''public_url'', coalesce (property session ''public_url'') (JStr []))])"

text \<open>The overlay of the session's detail record (lines 725-740).\<close>

definition overlay_time :: "Remote \<Rightarrow> jsval \<Rightarrow> string \<Rightarrow> JsonObject \<Rightarrow> JsonObject" where
  "overlay_time remote sessionDetails field row =
     assign row (''session_'' @ field)
       (JStr (or_string
          (toIsoOrEmpty (parse_date remote) (iso_string remote) (property sessionDetails field))
          (String (coalesce (lookup row (''session_'' @ field)) (JStr [])))))"

definition enrichRow :: "Remote \<Rightarrow> JsonObject \<Rightarrow> JsonObject \<Rightarrow> JsonObject" where
  "enrichRow remote baseRow details =
     (let automation = lookup details ''automation_session'';
          appDetails =
            coalesce (if nullish automation then JUndefined
                      else property automation ''app_details'') (JObj []);
          sessionDetails = coalesce automation (JObj []);
          row1 = overlay_time remote sessionDetails ''created_at'' baseRow;
          row2 = overlay_time remote sessionDetails ''started_at'' row1;
          row3 = overlay_time remote sessionDetails ''finished_at'' row2;
          row4 = assign row3 ''app_url'' (coalesce (property appDetails ''app_url'') (JStr []));
          row5 = assign row4 ''app_name'' (coalesce (property appDetails ''app_name'') (JStr []));
          row6 = assign row5 ''app_version''
                   (coalesce (property appDetails ''app_version'') (JStr []));
          row7 = assign row6 ''app_custom_id''
                   (coalesce (property appDetails ''app_custom_id'') (JStr []))
      in assign row7 ''app_uploaded_at''
           (JStr (toIsoOrEmpty (parse_date remote) (iso_string remote)
                    (property appDetails ''uploaded_at''))))"

text \<open>One turn of the \<^verbatim>\<open>for\<close> loop of lines 694-744: the row of one listed session.\<close>

definition sessionRow :: "Remote \<Rightarrow> string \<Rightarrow> ReportConfig \<Rightarrow> JsonObject \<Rightarrow> error + JsonObject" where
  "sessionRow remote buildId config item =
     (let baseRow = sessionBaseRow remote buildId item;
          sessionId = lookup baseRow ''session_id''
      in if includeSessionDetails (appAutomate config) \<and> truthy sessionId then
           (case session_details remote (String sessionId) of
              Inl e \<Rightarrow> Inl e
            | Inr details \<Rightarrow> Inr (enrichRow remote baseRow details))
         else Inr baseRow)"

fun pushSessionRows ::
  "Remote \<Rightarrow> string \<Rightarrow> ReportConfig \<Rightarrow> JsonObject list \<Rightarrow> JsonObject list \<Rightarrow>
   error + JsonObject list" where
  "pushSessionRows remote buildId config rows [] = Inr rows"
| "pushSessionRows remote buildId config rows (item # items) =
     (case sessionRow remote buildId config item of
        Inl e \<Rightarrow> Inl e
      | Inr row \<Rightarrow> pushSessionRows remote buildId config (rows @ [row]) items)"

text \<open>
  The \<^verbatim>\<open>while (hasMore)\<close> loop of lines 682-748, with the list of the page requests
  issued so far. The loop has no bound of its own, so the model counts its turns.
\<close>

definition sessionsQuery :: "ReportConfig \<Rightarrow> int \<Rightarrow> int \<Rightarrow> SessionsQuery" where
  "sessionsQuery config limit offset =
     \<lparr> query_limit = limit, query_offset = offset,
       query_status =
         (case sessionStatusFilter (appAutomate config) of
            None \<Rightarrow> None
          | Some status \<Rightarrow> if status \<noteq> [] then Some status else None) \<rparr>"

fun sessionsLoop ::
  "nat \<Rightarrow> Remote \<Rightarrow> string \<Rightarrow> ReportConfig \<Rightarrow> int \<Rightarrow> int \<Rightarrow> JsonObject list \<Rightarrow>
   SessionsQuery list \<Rightarrow> SessionsQuery list \<times> JsonObject list outcome" where
  "sessionsLoop 0 remote buildId config limit offset rows requests = (requests, OutOfFuel)"
| "sessionsLoop (Suc fuel) remote buildId config limit offset rows requests =
     (case list_sessions remote buildId (sessionsQuery config limit offset) of
        Inl e \<Rightarrow> (requests @ [sessionsQuery config limit offset], Threw e)
      | Inr response \<Rightarrow>
          (case pushSessionRows remote buildId config rows response of
             Inl e \<Rightarrow> (requests @ [sessionsQuery config limit offset], Threw e)
           | Inr rows' \<Rightarrow>
               if int (length response) = limit
               then sessionsLoop fuel remote buildId config limit (offset + limit) rows'
                      (requests @ [sessionsQuery config limit offset])
               else (requests @ [sessionsQuery config limit offset], Returned rows')))"

text \<open>\<^verbatim>\<open>fetchAppAutomateSessionsForBuild\<close> (lines 672-751).\<close>

definition fetchAppAutomateSessionsForBuild ::
  "nat \<Rightarrow> Remote \<Rightarrow> string \<Rightarrow> ReportConfig \<Rightarrow> SessionsQuery list \<times> JsonObject list outcome" where
  "fetchAppAutomateSessionsForBuild fuel remote buildId config =
     sessionsLoop fuel remote buildId config (max 1 (sessionLimit (appAutomate config))) 0 [] []"

text \<open>
  A session listing that holds the sessions \<open>items\<close> of a build and honours the offset
  and the limit of a request.
\<close>

definition paged_listing :: "JsonObject list \<Rightarrow> SessionsQuery \<Rightarrow> error + JsonObject list" where
  "paged_listing items q = Inr (take (nat (query_limit q)) (drop (nat (query_offset q)) items))"

text \<open>
  A build of 25 sessions on a listing that honours offset and limit, and two
  configurations that fetch no session details: a page limit of 10, and the default
  page limit of 25.
\<close>

definition sessions25 :: "JsonObject list" where
  "sessions25 =
     map (\<lambda>i. [(''automation_session'', JObj [(''hashed_id'', JStr (show_nat i))])]) [0..<25]"

definition remote25 :: Remote where
  "remote25 =
     \<lparr> parse_date = (\<lambda>s. None), iso_string = (\<lambda>t. []),
       list_sessions = (\<lambda>buildId. paged_listing sessions25),
       session_details = (\<lambda>sessionId. Inl (Error ''Request failed 404'')),
       list_projects = (\<lambda>cursor. Inl (Error ''Request failed 404'')),
       list_builds = (\<lambda>projectId q. Inl (Error ''Request failed 404'')),
       test_runs = (\<lambda>buildId q. Inl (Error ''Request failed 404'')) \<rparr>"

definition config_limit :: "int option \<Rightarrow> ReportConfig" where
  "config_limit limit =
     resolveConfig
       (empty_document
          \<lparr> raw_appAutomate := Some
              \<lparr> raw_appAutomate_enabled = None, raw_sessionLimit = limit,
                raw_includeSessionDetails = Some False, raw_sessionStatusFilter = None,
                raw_appListLimit = None \<rparr> \<rparr>)"

section \<open>Cursor pagination\<close>

text \<open>\<^verbatim>\<open>LIMITS\<close> (lines 98-101).\<close>

definition maxProjectPages :: nat where
  "maxProjectPages = 200"


text \<open>\<^verbatim>\<open>extractObjectsFromUnknownPayload\<close> (lines 949-963).\<close>

fun first_array :: "JsonObject \<Rightarrow> string list \<Rightarrow> jsval list" where
  "first_array payload [] = []"
| "first_array payload (candidate # candidates) =
     (case lookup payload candidate of
        JArr xs \<Rightarrow> filter is_object xs
      | _ \<Rightarrow> first_array payload candidates)"

definition extractObjectsFromUnknownPayload :: "jsval \<Rightarrow> jsval list" where
  "extractObjectsFromUnknownPayload payload =
     (case payload of
        JArr xs \<Rightarrow> filter is_object xs
      | JObj kvs \<Rightarrow> first_array kvs [''builds'', ''projects'', ''items'', ''data'', ''results'']
      | _ \<Rightarrow> [])"

text \<open>\<^verbatim>\<open>getPagination\<close> (lines 965-971): the pair of \<^verbatim>\<open>hasNext\<close> and \<^verbatim>\<open>nextPage\<close>.\<close>

definition getPagination :: "jsval \<Rightarrow> bool \<times> string" where
  "getPagination payload =
     (truthy (getNested payload ''pagination.has_next''),
      or_string
        (String (coalesce (getNested payload ''pagination.next_page'') (JStr [])))
        (String (coalesce (if nullish payload then JUndefined else property payload ''next_page'')
                   (JStr []))))"

text \<open>
  \<^verbatim>\<open>Number(value)\<close> followed by \<^verbatim>\<open>Number.isFinite\<close>: \<open>None\<close> where the number is not
  finite. Of the numeric strings only the plain decimal integers are read; other
  spellings of a number in a string are outside the model.
\<close>

definition digit_value :: "char \<Rightarrow> nat option" where
  "digit_value c = map_of (zip ''0123456789'' [0..<10]) c"

definition decimal :: "string \<Rightarrow> int option" where
  "decimal s =
     (if s \<noteq> [] \<and> list_all (\<lambda>c. digit_value c \<noteq> None) s
      then Some (int (foldl (\<lambda>n c. 10 * n + the (digit_value c)) 0 s))
      else None)"

definition string_number :: "string \<Rightarrow> int option" where
  "string_number s =
     (case trim s of
        [] \<Rightarrow> Some 0
      | c # cs \<Rightarrow> if c = CHR ''-'' then map_option uminus (decimal cs) else decimal (c # cs))"

fun toNumber :: "jsval \<Rightarrow> int option" where
  "toNumber JUndefined = None"
| "toNumber JNull = Some 0"
| "toNumber (JBool b) = Some (if b then 1 else 0)"
| "toNumber (JNum i) = Some i"
| "toNumber (JStr s) = string_number s"
| "toNumber (JArr xs) = string_number (String (JArr xs))"
| "toNumber (JObj kvs) = None"

text \<open>
  \<^verbatim>\<open>Array.from(new Set(values))\<close>: the first occurrence of every value, in order.
  \<^verbatim>\<open>uniqueNumbers\<close> (lines 1025-1027) gets finite numbers only in the model, and
  \<^verbatim>\<open>uniqueNonEmpty\<close> is at lines 1021-1023.
\<close>

definition unique :: "'a list \<Rightarrow> 'a list" where
  "unique xs = rev (remdups (rev xs))"

definition uniqueNumbers :: "int list \<Rightarrow> int list" where
  "uniqueNumbers values = unique values"


text \<open>
  \<^verbatim>\<open>discoverTestReportingProjectIds\<close> (lines 973-1019). The loop function returns the
  cursors of the requests issued, in order, with the identifiers collected; the
  empty cursor stands for a request without \<^verbatim>\<open>next_page\<close>. A failed request ends the
  traversal (the \<^verbatim>\<open>catch\<close> of line 990).
\<close>

definition page_project_ids :: "jsval \<Rightarrow> int list" where
  "page_project_ids payload =
     List.map_filter
       (\<lambda>project. toNumber (coalesce (property project ''id'') (property project ''project_id'')))
       (extractObjectsFromUnknownPayload payload)"

definition keepFetchingProjects :: "jsval \<Rightarrow> nat \<Rightarrow> string set \<Rightarrow> bool" where
  "keepFetchingProjects payload pageCount seenNextPages \<longleftrightarrow>
     fst (getPagination payload) \<and> length (snd (getPagination payload)) > 0
     \<and> snd (getPagination payload) \<notin> seenNextPages \<and> pageCount < maxProjectPages"

function discoverProjectsLoop ::
  "Remote \<Rightarrow> int list \<Rightarrow> string \<Rightarrow> nat \<Rightarrow> string set \<Rightarrow> string list \<Rightarrow>
   string list \<times> int list" where
  "discoverProjectsLoop remote projectIds nextPage pageCount seenNextPages requests =
     (case list_projects remote nextPage of
        Inl e \<Rightarrow> (requests @ [nextPage], projectIds)
      | Inr payload \<Rightarrow>
          if keepFetchingProjects payload (pageCount + 1) seenNextPages
          then discoverProjectsLoop remote (projectIds @ page_project_ids payload)
                 (snd (getPagination payload)) (pageCount + 1)
                 (insert (snd (getPagination payload)) seenNextPages) (requests @ [nextPage])
          else (requests @ [nextPage], projectIds @ page_project_ids payload))"
  by pat_completeness auto
termination
  by (relation "measure (\<lambda>(remote, projectIds, nextPage, pageCount, seenNextPages, requests).
                  maxProjectPages - pageCount)")
     (auto simp: keepFetchingProjects_def)

declare discoverProjectsLoop.simps [simp del]

definition discoverTestReportingProjectIds :: "Remote \<Rightarrow> string list \<times> int list" where
  "discoverTestReportingProjectIds remote =
     (case discoverProjectsLoop remote [] [] 0 {} [] of
        (requests, projectIds) \<Rightarrow> (requests, uniqueNumbers projectIds))"









section \<open>The test runs of a build\<close>

text \<open>
  The fields of \<^verbatim>\<open>BuildDetailsResponse\<close> (lines 519-535) that the loop over the
  test-run pages reads.
\<close>

record BuildDetails =
  details_name :: "string option"
  details_build_number :: "int option"
  details_started_at :: "string option"
  details_finished_at :: "string option"

text \<open>
  The query of a test-run page (lines 587-590) as \<^verbatim>\<open>toQueryString\<close> sends it: the
  configured parameters, \<^verbatim>\<open>next_page\<close> set when the cursor is a non-empty string, and
  the parameters with an empty value dropped.
\<close>

fun set_param :: "(string \<times> string) list \<Rightarrow> string \<Rightarrow> string \<Rightarrow> (string \<times> string) list" where
  "set_param [] k v = [(k, v)]"
| "set_param ((k', v') # kvs) k v =
     (if k' = k then (k, v) # kvs else (k', v') # set_param kvs k v)"

definition testRunsQuery :: "ReportConfig \<Rightarrow> string option \<Rightarrow> (string \<times> string) list" where
  "testRunsQuery config nextPage =
     filter (\<lambda>(k, v). v \<noteq> [])
       (let query = (case testRunQuery (testReporting config) of Some q \<Rightarrow> q | None \<Rightarrow> [])
        in case nextPage of
             Some cursor \<Rightarrow> if cursor \<noteq> [] then set_param query ''next_page'' cursor else query
           | None \<Rightarrow> query)"

definition option_value :: "('a \<Rightarrow> jsval) \<Rightarrow> 'a option \<Rightarrow> jsval" where
  "option_value inject v = (case v of None \<Rightarrow> JUndefined | Some x \<Rightarrow> inject x)"

text \<open>The rows one page adds to \<^verbatim>\<open>tests\<close> (lines 596-609).\<close>

definition pageRows ::
  "Remote \<Rightarrow> ReportConfig \<Rightarrow> string \<Rightarrow> BuildDetails \<Rightarrow> TestRunsResponse \<Rightarrow> JsonObject list" where
  "pageRows remote config buildId buildDetails response =
     (let flattenedRows =
            flattenTestHierarchy buildId
              (case response_build_name response of
                 Some n \<Rightarrow> n
               | None \<Rightarrow> (case details_name buildDetails of Some n \<Rightarrow> n | None \<Rightarrow> []))
              (coalesce (option_value JNum (response_build_number response))
                 (coalesce (option_value JNum (details_build_number buildDetails)) (JStr [])))
              (response_hierarchy response)
              (includeHooks (testReporting config));
          buildStartedAt =
            toIsoOrEmpty (parse_date remote) (iso_string remote)
              (option_value JStr (details_started_at buildDetails));
          buildFinishedAt =
            toIsoOrEmpty (parse_date remote) (iso_string remote)
              (option_value JStr (details_finished_at buildDetails))
      in map (\<lambda>row. assign (assign row ''build_started_at'' (JStr buildStartedAt))
                      ''build_finished_at'' (JStr buildFinishedAt))
           flattenedRows)"

text \<open>\<^verbatim>\<open>keepFetching\<close> of lines 611-613, and the next cursor.\<close>

definition keepFetchingTestRuns :: "ReportConfig \<Rightarrow> TestRunsResponse \<Rightarrow> bool" where
  "keepFetchingTestRuns config response \<longleftrightarrow>
     fetchAllPages (testReporting config)
     \<and> field_of (response_pagination response) has_next = Some True
     \<and> (case field_of (response_pagination response) next_page of
          Some cursor \<Rightarrow> cursor \<noteq> []
        | None \<Rightarrow> False)"

text \<open>
  The \<^verbatim>\<open>while (keepFetching)\<close> loop of \<^verbatim>\<open>fetchTestReportingData\<close> (lines 583-614) for
  one build, with the queries of the requests issued. A failed request is fatal here.
  The loop has no bound of its own, so the model counts its turns.
\<close>

fun testRunsLoop ::
  "nat \<Rightarrow> Remote \<Rightarrow> ReportConfig \<Rightarrow> string \<Rightarrow> BuildDetails \<Rightarrow> string option \<Rightarrow>
   JsonObject list \<Rightarrow> (string \<times> string) list list \<Rightarrow>
   (string \<times> string) list list \<times> JsonObject list outcome" where
  "testRunsLoop 0 remote config buildId buildDetails nextPage tests requests =
     (requests, OutOfFuel)"
| "testRunsLoop (Suc fuel) remote config buildId buildDetails nextPage tests requests =
     (case test_runs remote buildId (testRunsQuery config nextPage) of
        Inl e \<Rightarrow> (requests @ [testRunsQuery config nextPage], Threw e)
      | Inr response \<Rightarrow>
          if keepFetchingTestRuns config response
          then testRunsLoop fuel remote config buildId buildDetails
                 (field_of (response_pagination response) next_page)
                 (tests @ pageRows remote config buildId buildDetails response)
                 (requests @ [testRunsQuery config nextPage])
          else (requests @ [testRunsQuery config nextPage],
                Returned (tests @ pageRows remote config buildId buildDetails response)))"

definition fetchTestRuns ::
  "nat \<Rightarrow> Remote \<Rightarrow> ReportConfig \<Rightarrow> string \<Rightarrow> BuildDetails \<Rightarrow>
   (string \<times> string) list list \<times> JsonObject list outcome" where
  "fetchTestRuns fuel remote config buildId buildDetails =
     testRunsLoop fuel remote config buildId buildDetails None [] []"

text \<open>
  A remote whose cursors run in a cycle: the first page names the cursor \<^verbatim>\<open>A\<close>, page
  \<^verbatim>\<open>A\<close> names \<^verbatim>\<open>B\<close> and page \<^verbatim>\<open>B\<close> names \<^verbatim>\<open>A\<close> again, every page saying that
  more pages follow. Each project page lists project 1 and each test-run page holds one
  test.
\<close>

definition next_cursor :: "string \<Rightarrow> string" where
  "next_cursor cursor = (if cursor = ''A'' then ''B'' else ''A'')"

definition cyclic_remote :: Remote where
  "cyclic_remote =
     \<lparr> parse_date = (\<lambda>s. None), iso_string = (\<lambda>t. []),
       list_sessions = (\<lambda>buildId q. Inr []),
       session_details = (\<lambda>sessionId. Inl (Error ''Request failed 404'')),
       list_projects = (\<lambda>cursor. Inr (JObj
          [(''projects'', JArr [JObj [(''id'', JNum 1)]]),
           (''pagination'', JObj [(''has_next'', JBool True),
                                  (''next_page'', JStr (next_cursor cursor))])])),
       list_builds = (\<lambda>projectId q. Inr (JObj [(''builds'', JArr [])])),
       test_runs = (\<lambda>buildId query. Inr
          \<lparr> response_build_name = None, response_build_number = None,
            response_hierarchy = [Node (Some ''logs in'') (Some ''TEST'') None []],
            response_pagination = Some
              \<lparr> has_next = Some True,
                next_page = Some (next_cursor
                  (case map_of query ''next_page'' of Some cursor \<Rightarrow> cursor | None \<Rightarrow> [])) \<rparr> \<rparr>) \<rparr>"


section \<open>Verified properties\<close>

subsection \<open>Column projection\<close>

lemma pickColumns_projects:
  "cols \<noteq> [] \<Longrightarrow> pickColumns rows (Some cols) = map (pickRow cols) rows"
  by (simp add: pickColumns_def)

text \<open>
  Claim C10. Column projection with an empty column list behaves as with an absent
  list: for every row collection the result is the input collection itself, not a
  collection of empty rows.
\<close>

theorem pickColumns_empty_spec_is_identity:
  "pickColumns rows (Some []) = rows \<and> pickColumns rows (Some []) = pickColumns rows None"
  by (simp add: pickColumns_def)

subsection \<open>The time window\<close>








subsection \<open>Delimited text\<close>

lemma read_quoted_double_quotes:
  "\<not> starts_with rest [DQUOTE] \<Longrightarrow> read_quoted (double_quotes s @ DQUOTE # rest) = Some (s, rest)"
proof (induction s)
  case Nil
  then show ?case by (cases rest) auto
next
  case (Cons c s)
  then show ?case by simp
qed

lemma read_plain_verbatim:
  assumes "\<not> needs_quoting s" and "\<not> has_carriage_return s" and "field_end rest"
  shows "read_plain (s @ rest) = (s, rest)"
  using assms
proof (induction s)
  case Nil
  then show ?case by (cases rest) (auto simp: field_end_def)
next
  case (Cons c s)
  then show ?case by (auto simp: needs_quoting_def has_carriage_return_def)
qed

text \<open>
  Claim C8, as the code has it. Let \<open>text\<close> be \<^verbatim>\<open>String(value ?? "")\<close>. A text
  holding a comma, a double quote or a line feed is wrapped in quotes with its quotes
  doubled, and any other text is written verbatim. Reading the written field back, in
  front of whatever \<open>toCsv\<close> puts after a field, gives \<open>text\<close> again and leaves the
  rest, for every \<open>text\<close> that is quote-wrapped or holds no carriage return.
\<close>

theorem csvEscape_round_trip:
  assumes "field_end rest"
    and "needs_quoting (String (coalesce v (JStr [])))
         \<or> \<not> has_carriage_return (String (coalesce v (JStr [])))"
  shows "csv_read_field (csvEscape v @ rest) = Some (String (coalesce v (JStr [])), rest)
     \<and> (if needs_quoting (String (coalesce v (JStr [])))
        then csvEscape v = [DQUOTE] @ double_quotes (String (coalesce v (JStr []))) @ [DQUOTE]
        else csvEscape v = String (coalesce v (JStr [])))"
proof (cases "needs_quoting (String (coalesce v (JStr [])))")
  case True
  have "\<not> starts_with rest [DQUOTE]"
    using assms(1) by (cases rest) (auto simp: field_end_def)
  then show ?thesis using True
    by (simp add: csvEscape_def csv_read_field_def read_quoted_double_quotes)
next
  case False
  let ?t = "String (coalesce v (JStr []))"
  have rp: "read_plain (?t @ rest) = (?t, rest)"
    using read_plain_verbatim [OF False _ assms(1)] assms(2) False by simp
  have nodq: "?t @ rest = c # cs \<Longrightarrow> c \<noteq> DQUOTE" for c cs
    using False assms(1) by (cases ?t) (auto simp: needs_quoting_def field_end_def)
  show ?thesis
  proof (cases "?t @ rest")
    case Nil
    then show ?thesis using False by (simp add: csvEscape_def csv_read_field_def)
  next
    case (Cons c cs)
    then show ?thesis using False rp nodq [OF Cons]
      by (simp add: csvEscape_def csv_read_field_def)
  qed
qed

text \<open>
  The value of the specification's example holds a comma, a quote and a line feed; it
  is followed by the line feed that ends its record.
\<close>

theorem csvEscape_round_trip_witness:
  "csv_read_field (csvEscape (JStr [CHR ''a'', COMMA, DQUOTE, CHR ''b'', LF, CHR ''c'']) @ [LF, CHR ''z''])
     = Some ([CHR ''a'', COMMA, DQUOTE, CHR ''b'', LF, CHR ''c''], [LF, CHR ''z''])
   \<and> csvEscape (JStr [CHR ''a'', COMMA, DQUOTE, CHR ''b'', LF, CHR ''c''])
     = [DQUOTE, CHR ''a'', COMMA, DQUOTE, DQUOTE, CHR ''b'', LF, CHR ''c'', DQUOTE]"
  using csvEscape_round_trip [of "[LF, CHR ''z'']" "JStr [CHR ''a'', COMMA, DQUOTE, CHR ''b'', LF, CHR ''c'']"]
  by (auto simp: field_end_def needs_quoting_def coalesce_def nullish_def)

text \<open>
  The claim as first stated, for every string, fails for a cell with a carriage return
  and none of the three characters that make \<open>csvEscape\<close> quote. Below, \<open>toCsv\<close>
  writes the cell \<^verbatim>\<open>a\r\<close> unquoted in front of the line feed that ends its record,
  the two characters read as the line break of RFC 4180, and the cell comes back as
  \<^verbatim>\<open>a\<close>.
\<close>

theorem csvEscape_carriage_return_counterexample:
  "toCsv [[(''k'', JStr [CHR ''a'', CR])], [(''k'', JStr ''b'')]]
     = ''k'' @ [LF] @ csvEscape (JStr [CHR ''a'', CR]) @ [LF] @ ''b''
   \<and> csv_read_field (csvEscape (JStr [CHR ''a'', CR]) @ [LF] @ ''b'') = Some (''a'', [CR, LF] @ ''b'')
   \<and> csv_read_field (csvEscape (JStr [CHR ''a'', CR]) @ [LF] @ ''b'') \<noteq> Some ([CHR ''a'', CR], [LF] @ ''b'')"
  by (simp add: toCsv_def csvEscape_def csv_read_field_def needs_quoting_def coalesce_def nullish_def)

subsection \<open>Flattening\<close>










subsection \<open>Resolving the configuration\<close>

lemma resolveConfig_idempotent:
  "resolveConfig (as_partial (resolveConfig raw)) = resolveConfig raw"
  by (simp add: resolveConfig_def as_partial_def field_or_def field_of_def days_or_null_def
      split: option.splits days_setting.splits)

lemma resolveConfig_columns:
  "field_of (columns (resolveConfig raw)) columns_builds = field_of (raw_columns raw) columns_builds"
  "field_of (columns (resolveConfig raw)) columns_tests = field_of (raw_columns raw) columns_tests"
  "field_of (columns (resolveConfig raw)) columns_sessions = field_of (raw_columns raw) columns_sessions"
  "field_of (columns (resolveConfig raw)) columns_apps = field_of (raw_columns raw) columns_apps"
  "field_of (columns (resolveConfig raw)) columns_overview = field_of (raw_columns raw) columns_overview"
  by (simp_all add: resolveConfig_def field_of_def)

text \<open>
  Claim C7, as the code has it. Config resolution is total and idempotent. For every
  partial configuration document, every optional field of the resolved configuration
  other than the five per-section column specs has a defined value (the day window is a
  number or \<^verbatim>\<open>null\<close>, never \<^verbatim>\<open>undefined\<close>); the \<^verbatim>\<open>columns\<close> object is defined
  and each of its column specs is the document's own, absent when the document gives
  none; and resolving a resolved configuration gives the same configuration.
\<close>

theorem resolveConfig_total_idempotent:
  "appCustomIds (inputs (resolveConfig raw)) \<noteq> None
   \<and> field_of (discoverRecentBuilds (inputs (resolveConfig raw))) discover_enabled \<noteq> None
   \<and> field_of (discoverRecentBuilds (inputs (resolveConfig raw))) maxBuildsPerSource \<noteq> None
   \<and> field_of (discoverRecentBuilds (inputs (resolveConfig raw))) testReportingProjectIds \<noteq> None
   \<and> testRunQuery (testReporting (resolveConfig raw)) \<noteq> None
   \<and> sessionStatusFilter (appAutomate (resolveConfig raw)) \<noteq> None
   \<and> field_of (filters (resolveConfig raw)) (\<lambda>f. Some (filters_days f)) \<noteq> None
   \<and> field_of (filters (resolveConfig raw)) (\<lambda>f. Some (filters_days f)) \<noteq> Some DaysUndefined
   \<and> field_of (filters (resolveConfig raw)) filters_projects \<noteq> None
   \<and> field_of (filters (resolveConfig raw)) filters_teams \<noteq> None
   \<and> field_of (filters (resolveConfig raw)) filters_people \<noteq> None
   \<and> field_of (filters (resolveConfig raw)) caseSensitive \<noteq> None
   \<and> field_of (filters (resolveConfig raw)) applyDaysToApps \<noteq> None
   \<and> columns (resolveConfig raw) \<noteq> None
   \<and> field_of (columns (resolveConfig raw)) columns_builds = field_of (raw_columns raw) columns_builds
   \<and> field_of (columns (resolveConfig raw)) columns_tests = field_of (raw_columns raw) columns_tests
   \<and> field_of (columns (resolveConfig raw)) columns_sessions
       = field_of (raw_columns raw) columns_sessions
   \<and> field_of (columns (resolveConfig raw)) columns_apps = field_of (raw_columns raw) columns_apps
   \<and> field_of (columns (resolveConfig raw)) columns_overview
       = field_of (raw_columns raw) columns_overview
   \<and> resolveConfig (as_partial (resolveConfig raw)) = resolveConfig raw"
proof -
  have days: "days_or_null (raw_filters raw) \<noteq> DaysUndefined"
    by (simp add: days_or_null_def split: option.splits days_setting.splits)
  have defined:
    "appCustomIds (inputs (resolveConfig raw)) \<noteq> None
     \<and> field_of (discoverRecentBuilds (inputs (resolveConfig raw))) discover_enabled \<noteq> None
     \<and> field_of (discoverRecentBuilds (inputs (resolveConfig raw))) maxBuildsPerSource \<noteq> None
     \<and> field_of (discoverRecentBuilds (inputs (resolveConfig raw))) testReportingProjectIds \<noteq> None
     \<and> testRunQuery (testReporting (resolveConfig raw)) \<noteq> None
     \<and> sessionStatusFilter (appAutomate (resolveConfig raw)) \<noteq> None
     \<and> columns (resolveConfig raw) \<noteq> None"
    by (simp add: resolveConfig_def field_of_def)
  have filters_defined:
    "field_of (filters (resolveConfig raw)) (\<lambda>f. Some (filters_days f)) \<noteq> None
     \<and> field_of (filters (resolveConfig raw)) (\<lambda>f. Some (filters_days f)) \<noteq> Some DaysUndefined
     \<and> field_of (filters (resolveConfig raw)) filters_projects \<noteq> None
     \<and> field_of (filters (resolveConfig raw)) filters_teams \<noteq> None
     \<and> field_of (filters (resolveConfig raw)) filters_people \<noteq> None
     \<and> field_of (filters (resolveConfig raw)) caseSensitive \<noteq> None
     \<and> field_of (filters (resolveConfig raw)) applyDaysToApps \<noteq> None"
    using days by (simp add: resolveConfig_def field_of_def)
  from defined filters_defined show ?thesis
    by (simp only: resolveConfig_columns resolveConfig_idempotent simp_thms)
qed

text \<open>
  The claim as first stated counts the per-section column specs among the fields that
  get a value. Resolving the empty document leaves all five absent.
\<close>

theorem resolveConfig_columns_counterexample:
  "field_of (columns (resolveConfig empty_document)) columns_builds = None
   \<and> field_of (columns (resolveConfig empty_document)) columns_tests = None
   \<and> field_of (columns (resolveConfig empty_document)) columns_sessions = None
   \<and> field_of (columns (resolveConfig empty_document)) columns_apps = None
   \<and> field_of (columns (resolveConfig empty_document)) columns_overview = None"
  by (simp add: resolveConfig_def empty_document_def field_of_def)

subsection \<open>Validating the configuration\<close>

text \<open>
  Claim C4 at a configuration with two violations: test reporting is enabled with no
  build IDs while discovery is disabled, and the day window is \<open>-1\<close>. The document is
  \<^verbatim>\<open>{"inputs": {"discoverRecentBuilds": {"enabled": false}}, "appAutomate":
  {"enabled": false}, "filters": {"days": -1}}\<close>. Validation fails with the message of
  the first violation and the closing tip; the day window is not mentioned in it.
\<close>

theorem validateConfig_reports_ids_only:
  "validateConfig (resolveConfig
      (empty_document
         \<lparr> raw_inputs := Some
             \<lparr> raw_testReportingBuildIds = None, raw_appAutomateBuildIds = None,
               raw_appCustomIds = None,
               raw_discoverRecentBuilds = Some
                 \<lparr> discover_enabled = Some False, maxBuildsPerSource = None,
                   testReportingProjectIds = None \<rparr> \<rparr>,
           raw_appAutomate := Some
             \<lparr> raw_appAutomate_enabled = Some False, raw_sessionLimit = None,
               raw_includeSessionDetails = None, raw_sessionStatusFilter = None,
               raw_appListLimit = None \<rparr>,
           raw_filters := Some
             \<lparr> filters_days = Days (Finite (- 1)), filters_projects = None,
               filters_teams = None, filters_people = None, caseSensitive = None,
               applyDaysToApps = None \<rparr> \<rparr>))
   = Inl (Error (''Invalid report configuration.'' @ [LF]
        @ ''testReporting.enabled is true but inputs.testReportingBuildIds is empty.'' @ [LF]
        @ ''Tip: provide real BrowserStack build IDs, or disable the corresponding section (testReporting.enabled/appAutomate.enabled).''))
   \<and> days_invalid (resolveConfig
      (empty_document
         \<lparr> raw_inputs := Some
             \<lparr> raw_testReportingBuildIds = None, raw_appAutomateBuildIds = None,
               raw_appCustomIds = None,
               raw_discoverRecentBuilds = Some
                 \<lparr> discover_enabled = Some False, maxBuildsPerSource = None,
                   testReportingProjectIds = None \<rparr> \<rparr>,
           raw_appAutomate := Some
             \<lparr> raw_appAutomate_enabled = Some False, raw_sessionLimit = None,
               raw_includeSessionDetails = None, raw_sessionStatusFilter = None,
               raw_appListLimit = None \<rparr>,
           raw_filters := Some
             \<lparr> filters_days = Days (Finite (- 1)), filters_projects = None,
               filters_teams = None, filters_people = None, caseSensitive = None,
               applyDaysToApps = None \<rparr> \<rparr>))"
  by (simp add: validateConfig_def id_errors_def days_invalid_def canDiscover_def
      resolveConfig_def empty_document_def field_or_def field_of_def days_or_null_def
      isFinite_def le_zero_def)

text \<open>
  In general: as soon as one identifier check fails, the error is built from the
  identifier messages alone, whatever the day window is.
\<close>

lemma validateConfig_id_errors_only:
  "id_errors config \<noteq> [] \<Longrightarrow>
   validateConfig config =
     Inl (Error (join [LF]
       ([''Invalid report configuration.''] @ id_errors config @
        [''Tip: provide real BrowserStack build IDs, or disable the corresponding section (testReporting.enabled/appAutomate.enabled).''])))"
  by (simp add: validateConfig_def)

subsection \<open>The session listing\<close>

lemma pushSessionRows_all:
  assumes "\<And>item. item \<in> set response \<Longrightarrow> sessionRow remote buildId config item = Inr (rowf item)"
  shows "pushSessionRows remote buildId config rows response = Inr (rows @ map rowf response)"
  using assms by (induction response arbitrary: rows) simp_all

text \<open>
  From any offset inside the listing, the loop issues one request for every full page
  left and one more, and returns the rows of all the sessions from the offset on.
\<close>

lemma sessionsLoop_paged:
  assumes listing: "list_sessions remote buildId = paged_listing items"
    and rows_ok: "\<And>item. item \<in> set items \<Longrightarrow>
                   sessionRow remote buildId config item = Inr (rowf item)"
    and limit: "0 < l"
  shows "(length items - k) div l < fuel \<Longrightarrow> k \<le> length items \<Longrightarrow>
     sessionsLoop fuel remote buildId config (int l) (int k) rows requests
     = (requests @ map (\<lambda>i. sessionsQuery config (int l) (int (k + i * l)))
                     [0..<(length items - k) div l + 1],
        Returned (rows @ map rowf (drop k items)))"
proof (induction fuel arbitrary: k rows requests)
  case 0
  then show ?case by simp
next
  case (Suc fuel)
  let ?page = "take l (drop k items)"
  have page: "list_sessions remote buildId (sessionsQuery config (int l) (int k)) = Inr ?page"
    by (simp add: listing paged_listing_def sessionsQuery_def)
  have "set ?page \<subseteq> set items"
    by (meson set_drop_subset set_take_subset subset_trans)
  then have push: "pushSessionRows remote buildId config rows ?page = Inr (rows @ map rowf ?page)"
    using rows_ok by (intro pushSessionRows_all) auto
  show ?case
  proof (cases "l \<le> length items - k")
    case True
    then have full: "int (length ?page) = int l" by simp
    have k': "k + l \<le> length items" using True Suc.prems(2) by simp
    have d: "(length items - k) div l = Suc ((length items - (k + l)) div l)"
      using True limit by (simp add: le_div_geq)
    then have fuel: "(length items - (k + l)) div l < fuel" using Suc.prems(1) by simp
    have rows': "map rowf ?page @ map rowf (drop (k + l) items) = map rowf (drop k items)"
      by (metis add.commute append_take_drop_id drop_drop map_append)
    have reqs: "sessionsQuery config (int l) (int k)
          # map (\<lambda>i. sessionsQuery config (int l) (int (k + l + i * l)))
              [0..<(length items - (k + l)) div l + 1]
        = map (\<lambda>i. sessionsQuery config (int l) (int (k + i * l)))
              [0..<(length items - k) div l + 1]"
    proof -
      let ?m = "(length items - (k + l)) div l + 1"
      have "map (\<lambda>i. sessionsQuery config (int l) (int (k + i * l))) [0..<Suc ?m]
          = sessionsQuery config (int l) (int (k + 0 * l))
            # map (\<lambda>i. sessionsQuery config (int l) (int (k + Suc i * l))) [0..<?m]"
        by (rule map_upt_Suc)
      also have "(\<lambda>i. sessionsQuery config (int l) (int (k + Suc i * l)))
          = (\<lambda>i. sessionsQuery config (int l) (int (k + l + i * l)))"
        by (simp add: algebra_simps)
      finally show ?thesis unfolding d by simp
    qed
    from Suc.IH [OF fuel k', of "rows @ map rowf ?page"
        "requests @ [sessionsQuery config (int l) (int k)]"]
    show ?thesis
      using page push full rows' reqs
      by (simp add: of_nat_add [symmetric] del: of_nat_add)
  next
    case False
    then have short: "int (length ?page) \<noteq> int l" by simp
    have whole: "?page = drop k items" using False by simp
    have d: "(length items - k) div l = 0" using False by simp
    show ?thesis using page push short
      by (simp add: whole d)
  qed
qed

text \<open>
  Claim C5. For a build whose listing holds the sessions \<open>items\<close> and honours offset
  and limit, and with a model budget of more than \<open>length items div limit\<close> turns, the
  loop returns: it issues \<open>length items div limit + 1\<close> page requests, at the offsets
  \<open>0\<close>, \<open>limit\<close>, \<open>2 * limit\<close>, ..., and returns one row for each session, in order. It
  goes on after every page of exactly \<open>limit\<close> rows and stops at the first shorter one.
\<close>

theorem fetchAppAutomateSessionsForBuild_paged:
  assumes "list_sessions remote buildId = paged_listing items"
    and "\<And>item. item \<in> set items \<Longrightarrow> sessionRow remote buildId config item = Inr (rowf item)"
    and "length items div nat (max 1 (sessionLimit (appAutomate config))) < fuel"
  shows "fetchAppAutomateSessionsForBuild fuel remote buildId config
     = (map (\<lambda>i. sessionsQuery config (max 1 (sessionLimit (appAutomate config)))
                   (int i * max 1 (sessionLimit (appAutomate config))))
          [0..<length items div nat (max 1 (sessionLimit (appAutomate config))) + 1],
        Returned (map rowf items))"
proof -
  define l where "l = nat (max 1 (sessionLimit (appAutomate config)))"
  have l: "0 < l" "int l = max 1 (sessionLimit (appAutomate config))"
    by (simp_all add: l_def)
  have "sessionsLoop fuel remote buildId config (int l) (int 0) [] []
     = ([] @ map (\<lambda>i. sessionsQuery config (int l) (int (0 + i * l)))
                     [0..<(length items - 0) div l + 1],
        Returned ([] @ map rowf (drop 0 items)))"
    using assms(3) by (intro sessionsLoop_paged [OF assms(1) assms(2) l(1)]) (simp_all add: l_def)
  then show ?thesis
    by (simp add: fetchAppAutomateSessionsForBuild_def l(2) [symmetric] l_def [symmetric])
qed

text \<open>
  The two scenarios of the specification, on a build of 25 sessions: with a page limit
  of 10 there are three page requests, at the offsets 0, 10 and 20; with a page limit of
  25 there are two, at the offsets 0 and 25, the second page being empty. Both return
  the 25 rows.
\<close>

lemma config_limit_fields:
  "sessionLimit (appAutomate (config_limit (Some n))) = n"
  "sessionLimit (appAutomate (config_limit None)) = 25"
  "includeSessionDetails (appAutomate (config_limit limit)) = False"
  "sessionStatusFilter (appAutomate (config_limit limit)) = Some []"
  by (simp_all add: config_limit_def resolveConfig_def empty_document_def field_or_def)

lemma sessionRow_without_details:
  "sessionRow remote buildId (config_limit limit) item = Inr (sessionBaseRow remote buildId item)"
  by (simp add: sessionRow_def config_limit_fields)

theorem fetchAppAutomateSessionsForBuild_paged_witness:
  "fetchAppAutomateSessionsForBuild 3 remote25 ''build'' (config_limit (Some 10))
     = ([\<lparr>query_limit = 10, query_offset = 0, query_status = None\<rparr>,
         \<lparr>query_limit = 10, query_offset = 10, query_status = None\<rparr>,
         \<lparr>query_limit = 10, query_offset = 20, query_status = None\<rparr>],
        Returned (map (sessionBaseRow remote25 ''build'') sessions25))
   \<and> fetchAppAutomateSessionsForBuild 2 remote25 ''build'' (config_limit None)
     = ([\<lparr>query_limit = 25, query_offset = 0, query_status = None\<rparr>,
         \<lparr>query_limit = 25, query_offset = 25, query_status = None\<rparr>],
        Returned (map (sessionBaseRow remote25 ''build'') sessions25))
   \<and> length (map (sessionBaseRow remote25 ''build'') sessions25) = 25
   \<and> list_sessions remote25 ''build'' \<lparr>query_limit = 25, query_offset = 25, query_status = None\<rparr>
     = Inr []"
proof -
  have listing: "list_sessions remote25 ''build'' = paged_listing sessions25"
    by (simp add: remote25_def)
  have len: "length sessions25 = 25"
    by (simp add: sessions25_def)
  have upt3: "[0..<3] = [0, 1, 2]" and upt2: "[0..<2] = [0, 1]"
    by (simp_all add: upt_rec)
  have ten: "fetchAppAutomateSessionsForBuild 3 remote25 ''build'' (config_limit (Some 10))
     = ([\<lparr>query_limit = 10, query_offset = 0, query_status = None\<rparr>,
         \<lparr>query_limit = 10, query_offset = 10, query_status = None\<rparr>,
         \<lparr>query_limit = 10, query_offset = 20, query_status = None\<rparr>],
        Returned (map (sessionBaseRow remote25 ''build'') sessions25))"
    using fetchAppAutomateSessionsForBuild_paged [of remote25 "''build''" sessions25
        "config_limit (Some 10)" "sessionBaseRow remote25 ''build''" 3]
    by (simp add: listing len config_limit_fields sessionRow_without_details sessionsQuery_def upt3)
  have default: "fetchAppAutomateSessionsForBuild 2 remote25 ''build'' (config_limit None)
     = ([\<lparr>query_limit = 25, query_offset = 0, query_status = None\<rparr>,
         \<lparr>query_limit = 25, query_offset = 25, query_status = None\<rparr>],
        Returned (map (sessionBaseRow remote25 ''build'') sessions25))"
    using fetchAppAutomateSessionsForBuild_paged [of remote25 "''build''" sessions25
        "config_limit None" "sessionBaseRow remote25 ''build''" 2]
    by (simp add: listing len config_limit_fields sessionRow_without_details sessionsQuery_def upt2)
  have last_page: "list_sessions remote25 ''build''
      \<lparr>query_limit = 25, query_offset = 25, query_status = None\<rparr> = Inr []"
    by (simp add: listing paged_listing_def len)
  from ten default len last_page show ?thesis by simp
qed

text \<open>
  Whatever the remote answers and however long the loop runs, the requests issued so
  far carry the same limit and the offsets \<open>k * limit\<close>, \<open>(k + 1) * limit\<close>, ...
\<close>

lemma sessionsLoop_requests:
  "\<exists>m. fst (sessionsLoop fuel remote buildId config l (int k * l) rows requests)
      = requests @ map (\<lambda>i. sessionsQuery config l (int (k + i) * l)) [0..<m]"
proof (induction fuel arbitrary: k rows requests)
  case 0
  have "fst (sessionsLoop 0 remote buildId config l (int k * l) rows requests)
      = requests @ map (\<lambda>i. sessionsQuery config l (int (k + i) * l)) [0..<0]"
    by simp
  then show ?case by blast
next
  case (Suc fuel)
  let ?q = "sessionsQuery config l (int k * l)"
  have one: "requests @ [?q]
      = requests @ map (\<lambda>i. sessionsQuery config l (int (k + i) * l)) [0..<1]"
    by simp
  show ?case
  proof (cases "list_sessions remote buildId ?q")
    case (Inl e)
    then have "fst (sessionsLoop (Suc fuel) remote buildId config l (int k * l) rows requests)
        = requests @ [?q]" by simp
    with one show ?thesis by metis
  next
    case (Inr response)
    show ?thesis
    proof (cases "pushSessionRows remote buildId config rows response")
      case (Inl e)
      then have "fst (sessionsLoop (Suc fuel) remote buildId config l (int k * l) rows requests)
          = requests @ [?q]" using Inr by simp
      with one show ?thesis by metis
    next
      case push: (Inr rows')
      show ?thesis
      proof (cases "int (length response) = l")
        case False
        then have "fst (sessionsLoop (Suc fuel) remote buildId config l (int k * l) rows requests)
            = requests @ [?q]" using Inr push by simp
        with one show ?thesis by metis
      next
        case True
        have step: "sessionsLoop (Suc fuel) remote buildId config l (int k * l) rows requests
            = sessionsLoop fuel remote buildId config l (int (Suc k) * l) rows' (requests @ [?q])"
          using Inr push True by (simp add: algebra_simps)
        from Suc.IH [of "Suc k" rows' "requests @ [?q]"] obtain m where
          m: "fst (sessionsLoop fuel remote buildId config l (int (Suc k) * l) rows'
                (requests @ [?q]))
              = (requests @ [?q])
                @ map (\<lambda>i. sessionsQuery config l (int (Suc k + i) * l)) [0..<m]"
          by blast
        have "map (\<lambda>i. sessionsQuery config l (int (k + i) * l)) [0..<Suc m]
            = sessionsQuery config l (int (k + 0) * l)
              # map (\<lambda>i. sessionsQuery config l (int (k + Suc i) * l)) [0..<m]"
          by (rule map_upt_Suc)
        then have "fst (sessionsLoop (Suc fuel) remote buildId config l (int k * l) rows requests)
            = requests @ map (\<lambda>i. sessionsQuery config l (int (k + i) * l)) [0..<Suc m]"
          using step m by simp
        then show ?thesis by blast
      qed
    qed
  qed
qed

lemma id_errors_ignore_sessionLimit:
  "id_errors (config\<lparr>appAutomate := (appAutomate config)\<lparr>sessionLimit := n\<rparr>\<rparr>) = id_errors config"
  by (simp add: id_errors_def canDiscover_def)

text \<open>
  On a listing that honours offset and limit the loop returns within
  \<open>length items + 1\<close> turns, whatever the configured limit is.
\<close>

lemma sessions_return_for_any_limit:
  "snd (fetchAppAutomateSessionsForBuild (Suc (length items))
          (remote\<lparr>list_sessions := (\<lambda>b. paged_listing items)\<rparr>) buildId
          (config\<lparr>appAutomate := (appAutomate config)\<lparr>includeSessionDetails := False\<rparr>\<rparr>))
     = Returned (map (sessionBaseRow (remote\<lparr>list_sessions := (\<lambda>b. paged_listing items)\<rparr>)
                        buildId) items)"
proof -
  let ?remote = "remote\<lparr>list_sessions := (\<lambda>b. paged_listing items)\<rparr>"
  let ?config = "config\<lparr>appAutomate := (appAutomate config)\<lparr>includeSessionDetails := False\<rparr>\<rparr>"
  define l where "l = nat (max 1 (sessionLimit (appAutomate config)))"
  have l: "0 < l" "int l = max 1 (sessionLimit (appAutomate config))"
    by (simp_all add: l_def)
  have listing: "list_sessions ?remote buildId = paged_listing items"
    by simp
  have rows: "sessionRow ?remote buildId ?config item = Inr (sessionBaseRow ?remote buildId item)"
    for item
    by (simp add: sessionRow_def)
  have fuel: "(length items - 0) div l < Suc (length items)"
    by (simp add: le_imp_less_Suc)
  have "sessionsLoop (Suc (length items)) ?remote buildId ?config (int l) (int 0) [] []
      = ([] @ map (\<lambda>i. sessionsQuery ?config (int l) (int (0 + i * l)))
                [0..<(length items - 0) div l + 1],
         Returned ([] @ map (sessionBaseRow ?remote buildId) (drop 0 items)))"
    by (rule sessionsLoop_paged [OF listing rows l(1) fuel]) simp
  then show ?thesis
    by (simp add: fetchAppAutomateSessionsForBuild_def l(2) [symmetric] del: sessionsLoop.simps)
qed

text \<open>
  Claim C9. For every configuration, every remote and every length of run, the page
  requests issued by the session listing all carry the limit
  \<open>max 1 sessionLimit\<close>, which is at least 1, and the \<open>i\<close>-th of them carries the
  offset \<open>i\<close> times that limit, so the offsets increase strictly. Validation does not
  look at the configured limit: a configuration passes or fails the same with any other
  \<open>sessionLimit\<close>, a non-positive one included. And the loop still stops: on a
  listing of the sessions \<open>items\<close> that honours offset and limit, with session details
  off, it returns the rows of all the sessions within \<open>length items + 1\<close> turns.
\<close>

theorem session_requests_clamped:
  "fst (fetchAppAutomateSessionsForBuild fuel remote buildId config)
     = map (\<lambda>i. sessionsQuery config (max 1 (sessionLimit (appAutomate config)))
                   (int i * max 1 (sessionLimit (appAutomate config))))
         [0..<length (fst (fetchAppAutomateSessionsForBuild fuel remote buildId config))]
   \<and> 1 \<le> max 1 (sessionLimit (appAutomate config))
   \<and> sorted_wrt (<)
       (map query_offset (fst (fetchAppAutomateSessionsForBuild fuel remote buildId config)))
   \<and> validateConfig (config\<lparr>appAutomate := (appAutomate config)\<lparr>sessionLimit := n\<rparr>\<rparr>)
     = validateConfig config
   \<and> snd (fetchAppAutomateSessionsForBuild (Suc (length items))
          (remote\<lparr>list_sessions := (\<lambda>b. paged_listing items)\<rparr>) buildId
          (config\<lparr>appAutomate := (appAutomate config)\<lparr>includeSessionDetails := False\<rparr>\<rparr>))
     = Returned (map (sessionBaseRow (remote\<lparr>list_sessions := (\<lambda>b. paged_listing items)\<rparr>)
                        buildId) items)"
proof -
  let ?l = "max 1 (sessionLimit (appAutomate config))"
  let ?requests = "fst (fetchAppAutomateSessionsForBuild fuel remote buildId config)"
  from sessionsLoop_requests [of fuel remote buildId config ?l 0 "[]" "[]"]
  obtain m where m: "?requests = map (\<lambda>i. sessionsQuery config ?l (int i * ?l)) [0..<m]"
    by (auto simp: fetchAppAutomateSessionsForBuild_def)
  then have len: "length ?requests = m" by simp
  have shape: "?requests = map (\<lambda>i. sessionsQuery config ?l (int i * ?l)) [0..<length ?requests]"
    using m len by simp
  have offsets: "map query_offset ?requests = map (\<lambda>i. int i * ?l) [0..<m]"
    by (subst m) (simp add: sessionsQuery_def o_def)
  have "int i * ?l < int j * ?l" if "i < j" for i j :: nat
    using that by (intro mult_strict_right_mono) simp_all
  then have "sorted_wrt (<) (map (\<lambda>i. int i * ?l) [0..<m])"
    by (simp add: sorted_wrt_iff_nth_less)
  then have increasing: "sorted_wrt (<) (map query_offset ?requests)"
    by (simp only: offsets)
  have validate: "validateConfig (config\<lparr>appAutomate := (appAutomate config)\<lparr>sessionLimit := n\<rparr>\<rparr>)
      = validateConfig config"
    by (simp add: validateConfig_def id_errors_ignore_sessionLimit days_invalid_def)
  from shape increasing validate sessions_return_for_any_limit [of items remote buildId config]
  show ?thesis by (simp del: sessionsLoop.simps)
qed

subsection \<open>Cursor pagination\<close>

text \<open>
  The discovery loops stop by themselves. Project discovery issues at most
  \<open>maxProjectPages\<close> requests, and after a page it goes on exactly when the page says
  that more follow, names a non-empty cursor that was not named before, and the page
  count is below the ceiling.
\<close>

lemma discoverProjectsLoop_bound:
  "length (fst (discoverProjectsLoop remote projectIds nextPage pageCount seenNextPages requests))
   \<le> length requests + max 1 (maxProjectPages - pageCount)"
proof (induction remote projectIds nextPage pageCount seenNextPages requests
    rule: discoverProjectsLoop.induct)
  case (1 remote projectIds nextPage pageCount seenNextPages requests)
  show ?case
  proof (cases "list_projects remote nextPage")
    case (Inl e)
    then show ?thesis by (subst discoverProjectsLoop.simps) simp
  next
    case (Inr payload)
    show ?thesis
    proof (cases "keepFetchingProjects payload (pageCount + 1) seenNextPages")
      case True
      then have "pageCount + 1 < maxProjectPages" by (simp add: keepFetchingProjects_def)
      with "1.IH" [OF Inr True] Inr True show ?thesis
        by (subst discoverProjectsLoop.simps) simp
    next
      case False
      with Inr show ?thesis by (subst discoverProjectsLoop.simps) simp
    qed
  qed
qed

lemma discoverTestReportingProjectIds_bound:
  "length (fst (discoverTestReportingProjectIds remote)) \<le> maxProjectPages"
proof -
  have "length (fst (discoverProjectsLoop remote [] [] 0 {} [])) \<le> maxProjectPages"
    using discoverProjectsLoop_bound [of remote "[]" "[]" 0 "{}" "[]"]
    by (simp add: maxProjectPages_def)
  then show ?thesis
    by (cases "discoverProjectsLoop remote [] [] 0 {} []")
      (simp add: discoverTestReportingProjectIds_def)
qed

text \<open>
  On the cyclic remote, project discovery makes three requests (no cursor, \<^verbatim>\<open>A\<close>,
  \<^verbatim>\<open>B\<close>) and stops when \<^verbatim>\<open>A\<close> is named a second time.
\<close>

lemma cyclic_project_page:
  "list_projects cyclic_remote cursor = Inr (JObj
          [(''projects'', JArr [JObj [(''id'', JNum 1)]]),
           (''pagination'', JObj [(''has_next'', JBool True),
                                  (''next_page'', JStr (next_cursor cursor))])])"
  by (simp add: cyclic_remote_def)

lemma cyclic_project_pagination:
  "getPagination (JObj
          [(''projects'', JArr [JObj [(''id'', JNum 1)]]),
           (''pagination'', JObj [(''has_next'', JBool True), (''next_page'', JStr c)])])
   = (True, c)"
  by (simp add: getPagination_def getNested_def nullish_def is_object_def coalesce_def
      or_string_def)

lemma cyclic_project_ids:
  "page_project_ids (JObj
          [(''projects'', JArr [JObj [(''id'', JNum 1)]]),
           (''pagination'', JObj [(''has_next'', JBool True), (''next_page'', JStr c)])]) = [1]"
  by (simp add: page_project_ids_def extractObjectsFromUnknownPayload_def is_object_def
      List.map_filter_def coalesce_def nullish_def)

lemma discoverTestReportingProjectIds_cycle:
  "discoverTestReportingProjectIds cyclic_remote = ([[], ''A'', ''B''], [1])"
proof -
  have third: "discoverProjectsLoop cyclic_remote [1, 1] ''B'' (Suc (Suc 0)) {''B'', ''A''} [[], ''A'']
      = ([[], ''A'', ''B''], [1, 1, 1])"
    by (subst discoverProjectsLoop.simps)
      (simp add: cyclic_project_page cyclic_project_pagination cyclic_project_ids
        keepFetchingProjects_def next_cursor_def)
  have second: "discoverProjectsLoop cyclic_remote [1] ''A'' (Suc 0) {''A''} [[]]
      = ([[], ''A'', ''B''], [1, 1, 1])"
    by (subst discoverProjectsLoop.simps)
      (simp add: cyclic_project_page cyclic_project_pagination cyclic_project_ids
        keepFetchingProjects_def next_cursor_def maxProjectPages_def third)
  have first: "discoverProjectsLoop cyclic_remote [] [] 0 {} [] = ([[], ''A'', ''B''], [1, 1, 1])"
    by (subst discoverProjectsLoop.simps)
      (simp add: cyclic_project_page cyclic_project_pagination cyclic_project_ids
        keepFetchingProjects_def next_cursor_def maxProjectPages_def second)
  show ?thesis
    by (simp add: discoverTestReportingProjectIds_def first uniqueNumbers_def unique_def)
qed

text \<open>
  The loop over the test-run pages of a build has neither the set of seen cursors nor a
  page ceiling. On the cyclic remote it goes on after every page.
\<close>

lemma cyclic_test_runs_continue:
  "\<exists>response. test_runs cyclic_remote buildId (testRunsQuery (resolveConfig empty_document) nextPage)
      = Inr response
   \<and> keepFetchingTestRuns (resolveConfig empty_document) response"
  by (simp add: cyclic_remote_def keepFetchingTestRuns_def resolveConfig_def empty_document_def
      field_or_def field_of_def next_cursor_def)

lemma testRunsLoop_cycle:
  "\<exists>issued. testRunsLoop fuel cyclic_remote (resolveConfig empty_document) buildId buildDetails
       nextPage tests requests = (requests @ issued, OutOfFuel) \<and> length issued = fuel"
proof (induction fuel arbitrary: nextPage tests requests)
  case 0
  show ?case by simp
next
  case (Suc fuel)
  let ?config = "resolveConfig empty_document"
  from cyclic_test_runs_continue [of buildId nextPage] obtain response where
    r: "test_runs cyclic_remote buildId (testRunsQuery ?config nextPage) = Inr response"
      "keepFetchingTestRuns ?config response"
    by blast
  from Suc.IH [of "field_of (response_pagination response) next_page"
      "tests @ pageRows cyclic_remote ?config buildId buildDetails response"
      "requests @ [testRunsQuery ?config nextPage]"]
  obtain issued where
    i: "testRunsLoop fuel cyclic_remote ?config buildId buildDetails
          (field_of (response_pagination response) next_page)
          (tests @ pageRows cyclic_remote ?config buildId buildDetails response)
          (requests @ [testRunsQuery ?config nextPage])
        = ((requests @ [testRunsQuery ?config nextPage]) @ issued, OutOfFuel)"
      "length issued = fuel"
    by blast
  have "testRunsLoop (Suc fuel) cyclic_remote ?config buildId buildDetails nextPage tests requests
      = (requests @ (testRunsQuery ?config nextPage # issued), OutOfFuel)"
    using r i(1) by simp
  moreover have "length (testRunsQuery ?config nextPage # issued) = Suc fuel"
    using i(2) by simp
  ultimately show ?case by blast
qed

text \<open>
  Claim C1 on the direct per-build fetch, with the default configuration and the cyclic
  remote: however many turns the loop is given, it has issued one request in each of
  them and has not returned.
\<close>

theorem fetchTestRuns_cycle_never_returns:
  "snd (fetchTestRuns fuel cyclic_remote (resolveConfig empty_document) buildId buildDetails)
     = OutOfFuel
   \<and> length (fst (fetchTestRuns fuel cyclic_remote (resolveConfig empty_document) buildId
        buildDetails)) = fuel"
  using testRunsLoop_cycle [of fuel buildId buildDetails None "[]" "[]"]
  by (auto simp: fetchTestRuns_def)

text \<open>The first four requests: no cursor, then \<^verbatim>\<open>A\<close>, \<^verbatim>\<open>B\<close> and \<^verbatim>\<open>A\<close> again.\<close>

lemma fetchTestRuns_cycle_requests:
  "fst (fetchTestRuns 4 cyclic_remote (resolveConfig empty_document) ''build'' buildDetails)
   = [[], [(''next_page'', ''A'')], [(''next_page'', ''B'')], [(''next_page'', ''A'')]]"
proof -
  have q: "testRunsQuery (resolveConfig empty_document) None = []"
    "testRunsQuery (resolveConfig empty_document) (Some ''A'') = [(''next_page'', ''A'')]"
    "testRunsQuery (resolveConfig empty_document) (Some ''B'') = [(''next_page'', ''B'')]"
    by (simp_all add: testRunsQuery_def resolveConfig_def empty_document_def field_or_def)
  have c: "fetchAllPages (testReporting (resolveConfig empty_document))"
    by (simp add: resolveConfig_def empty_document_def field_or_def)
  have four: "(4::nat) = Suc (Suc (Suc (Suc 0)))" by simp
  show ?thesis
    unfolding fetchTestRuns_def four
    by (simp add: q c cyclic_remote_def keepFetchingTestRuns_def field_of_def next_cursor_def)
qed

subsection \<open>The date range of build discovery\<close>







end
